theory Spec2Isabelle
  imports Main "HOL-Library.AList"
begin

unbundle bit_operations_syntax

section \<open>The MD5 digest used by the cache store\<close>

text \<open>
  \<^verbatim>\<open>cache_manager.py\<close> names cache entries with \<^verbatim>\<open>hashlib.md5(...).hexdigest()\<close>.
  The digest is the standard one (RFC 1321): 32-bit words are integers with the
  wrap-around \<open>mod 2^32\<close> written out, bytes are integers below 256, and a string is
  the list of its bytes.
\<close>

definition md5_K :: "int list" where
  "md5_K = [0xd76aa478, 0xe8c7b756, 0x242070db, 0xc1bdceee, 0xf57c0faf, 0x4787c62a,
            0xa8304613, 0xfd469501, 0x698098d8, 0x8b44f7af, 0xffff5bb1, 0x895cd7be,
            0x6b901122, 0xfd987193, 0xa679438e, 0x49b40821, 0xf61e2562, 0xc040b340,
            0x265e5a51, 0xe9b6c7aa, 0xd62f105d, 0x02441453, 0xd8a1e681, 0xe7d3fbc8,
            0x21e1cde6, 0xc33707d6, 0xf4d50d87, 0x455a14ed, 0xa9e3e905, 0xfcefa3f8,
            0x676f02d9, 0x8d2a4c8a, 0xfffa3942, 0x8771f681, 0x6d9d6122, 0xfde5380c,
            0xa4beea44, 0x4bdecfa9, 0xf6bb4b60, 0xbebfbc70, 0x289b7ec6, 0xeaa127fa,
            0xd4ef3085, 0x04881d05, 0xd9d4d039, 0xe6db99e5, 0x1fa27cf8, 0xc4ac5665,
            0xf4292244, 0x432aff97, 0xab9423a7, 0xfc93a039, 0x655b59c3, 0x8f0ccc92,
            0xffeff47d, 0x85845dd1, 0x6fa87e4f, 0xfe2ce6e0, 0xa3014314, 0x4e0811a1,
            0xf7537e82, 0xbd3af235, 0x2ad7d2bb, 0xeb86d391]"

definition md5_s :: "nat list" where
  "md5_s = [7, 12, 17, 22, 7, 12, 17, 22, 7, 12, 17, 22, 7, 12, 17, 22,
            5, 9, 14, 20, 5, 9, 14, 20, 5, 9, 14, 20, 5, 9, 14, 20,
            4, 11, 16, 23, 4, 11, 16, 23, 4, 11, 16, 23, 4, 11, 16, 23,
            6, 10, 15, 21, 6, 10, 15, 21, 6, 10, 15, 21, 6, 10, 15, 21]"

definition add32 :: "int \<Rightarrow> int \<Rightarrow> int" where
  "add32 x y = (x + y) mod 4294967296"

definition not32 :: "int \<Rightarrow> int" where
  "not32 x = 4294967295 - x mod 4294967296"

definition rotl32 :: "int \<Rightarrow> nat \<Rightarrow> int" where
  "rotl32 x n = (x * 2 ^ n) mod 4294967296 + x div 2 ^ (32 - n)"

type_synonym md5_state = "int \<times> int \<times> int \<times> int"

fun md5_step :: "int list \<Rightarrow> md5_state \<Rightarrow> nat \<Rightarrow> md5_state" where
  "md5_step M (a, b, c, d) i =
     (let f = (if i < 16 then (b AND c) OR (not32 b AND d)
               else if i < 32 then (d AND b) OR (not32 d AND c)
               else if i < 48 then b XOR c XOR d
               else c XOR (b OR not32 d));
          g = (if i < 16 then i
               else if i < 32 then (5 * i + 1) mod 16
               else if i < 48 then (3 * i + 5) mod 16
               else (7 * i) mod 16);
          f' = add32 (add32 (add32 f a) (md5_K ! i)) (M ! g)
      in (d, add32 b (rotl32 f' (md5_s ! i)), b, c))"

fun md5_block :: "md5_state \<Rightarrow> int list \<Rightarrow> md5_state" where
  "md5_block (a0, b0, c0, d0) M =
     (case foldl (md5_step M) (a0, b0, c0, d0) [0..<64] of
        (a, b, c, d) \<Rightarrow> (add32 a0 a, add32 b0 b, add32 c0 c, add32 d0 d))"

definition le_bytes :: "nat \<Rightarrow> int \<Rightarrow> int list" where
  "le_bytes n x = map (\<lambda>k. (x div 256 ^ k) mod 256) [0..<n]"

definition md5_pad :: "int list \<Rightarrow> int list" where
  "md5_pad bs = bs @ [128] @ replicate ((119 - length bs mod 64) mod 64) 0
                 @ le_bytes 8 ((8 * int (length bs)) mod 2 ^ 64)"

fun le_word :: "int list \<Rightarrow> int" where
  "le_word [] = 0"
| "le_word (b # bs) = b + 256 * le_word bs"

fun chunks :: "nat \<Rightarrow> nat \<Rightarrow> 'a list \<Rightarrow> 'a list list" where
  "chunks 0 n xs = []"
| "chunks (Suc k) n xs = take n xs # chunks k n (drop n xs)"

definition md5_words :: "int list \<Rightarrow> int list" where
  "md5_words blk = map le_word (chunks 16 4 blk)"

definition md5_digest :: "int list \<Rightarrow> int list" where
  "md5_digest bs =
     (let p = md5_pad bs;
          blocks = map md5_words (chunks (length p div 64) 64 p)
      in case foldl md5_block (0x67452301, 0xefcdab89, 0x98badcfe, 0x10325476) blocks of
           (a, b, c, d) \<Rightarrow> concat (map (le_bytes 4) [a, b, c, d]))"

definition hex_digit :: "int \<Rightarrow> char" where
  "hex_digit n = ''0123456789abcdef'' ! nat (n mod 16)"

definition hex_byte :: "int \<Rightarrow> string" where
  "hex_byte b = [hex_digit (b div 16), hex_digit b]"

definition md5_hexdigest :: "string \<Rightarrow> string" where
  "md5_hexdigest s = concat (map hex_byte (md5_digest (map of_char s)))"

section \<open>The environment: dependency files, clock, serialised sizes\<close>

text \<open>
  The text Python's \<^verbatim>\<open>str\<close> gives for a float such as \<^verbatim>\<open>os.path.getmtime(path)\<close>:
  digits with a sign, a point and an exponent, or \<^verbatim>\<open>inf\<close> and \<^verbatim>\<open>nan\<close>. The code uses a
  modification time only through this text.
\<close>

typedef float_str = "{s :: string. set s \<subseteq> set ''0123456789.+-einfa''}"
  by (rule exI [of _ "[]"]) simp

text \<open>
  A path either names nothing, or a file whose bytes can be read, or something that exists
  but whose \<^verbatim>\<open>open(path, 'rb').read()\<close> raises (a directory, a file without read permission).
\<close>

datatype fs_node =
    Readable (node_content: string) (node_mtime: float_str)
  | Unreadable (node_mtime: float_str)

record world =
  files :: "string \<rightharpoonup> fs_node"
  now :: nat
  pickle_len :: "string \<Rightarrow> nat"

text \<open>\<^verbatim>\<open>os.path.exists\<close>: the empty path never exists.\<close>

definition path_exists :: "world \<Rightarrow> string \<Rightarrow> bool" where
  "path_exists w p = (p \<noteq> [] \<and> files w p \<noteq> None)"

section \<open>The cache store (\<^verbatim>\<open>tools/cache_manager.py\<close>)\<close>

text \<open>
  The cache directory is a listing of named files, in the order \<^verbatim>\<open>glob\<close> yields them. A
  file holds a pickled value (\<open>blob = Some v\<close>) or bytes that \<^verbatim>\<open>pickle.load\<close> rejects
  (\<open>blob = None\<close>), with the access time and size \<^verbatim>\<open>stat\<close> reports. Cached values are
  tool results, hence strings. Deleting a file of the cache directory raises when the
  process may not delete it (\<open>deletable\<close> is false: a file of another user in a sticky
  directory, say); a file the cache manager creates is its own. Dependency paths are
  taken not to name files inside the cache directory, and opening and writing files of
  the cache directory are taken to succeed.
\<close>

record cache_file =
  blob :: "string option"
  st_atime :: nat
  st_size :: nat
  deletable :: bool

record cache_manager =
  cache_dir :: "(string \<times> cache_file) list"
  max_size_mb :: int
  hits :: nat
  misses :: nat
  invalidations :: nat
  file_hashes :: "string \<rightharpoonup> string"

definition get_file_hash :: "world \<Rightarrow> string \<Rightarrow> string" where
  "get_file_hash w file_path =
     (if \<not> path_exists w file_path then ''nonexistent''
      else case files w file_path of
             Some (Readable content m) \<Rightarrow> md5_hexdigest content
           | Some (Unreadable m) \<Rightarrow> Rep_float_str m
           | None \<Rightarrow> ''nonexistent'')"

fun join :: "string \<Rightarrow> string list \<Rightarrow> string" where
  "join sep [] = []"
| "join sep [x] = x"
| "join sep (x # y # ys) = x @ sep @ join sep (y # ys)"

text \<open>The list \<^verbatim>\<open>key_parts\<close>; \<^verbatim>\<open>if file_deps:\<close> skips both \<^verbatim>\<open>None\<close> and the empty list.\<close>

definition key_parts :: "world \<Rightarrow> string \<Rightarrow> string list option \<Rightarrow> string list" where
  "key_parts w base_key file_deps =
     base_key # (case file_deps of
                   None \<Rightarrow> []
                 | Some deps \<Rightarrow> map (\<lambda>file_path. file_path @ '':'' @ get_file_hash w file_path) deps)"

definition build_cache_key :: "world \<Rightarrow> string \<Rightarrow> string list option \<Rightarrow> string" where
  "build_cache_key w base_key file_deps = md5_hexdigest (join ''|'' (key_parts w base_key file_deps))"

text \<open>Two different strings that MD5 does not tell apart.\<close>

definition md5_collision :: "string \<Rightarrow> string \<Rightarrow> bool" where
  "md5_collision a b = (a \<noteq> b \<and> md5_hexdigest a = md5_hexdigest b)"

text \<open>The name of the entry's file inside the cache directory.\<close>

definition get_cache_path :: "string \<Rightarrow> string" where
  "get_cache_path cache_key = cache_key @ ''.cache''"

text \<open>\<^verbatim>\<open>cache_dir.glob("*.cache")\<close> and Python's \<^verbatim>\<open>pattern in name\<close>.\<close>

definition is_cache_file :: "string \<Rightarrow> bool" where
  "is_cache_file n = (6 \<le> length n \<and> drop (length n - 6) n = ''.cache'')"

fun contains :: "string \<Rightarrow> string \<Rightarrow> bool" where
  "contains pat [] = (pat = [])"
| "contains pat (c # cs) = (take (length pat) (c # cs) = pat \<or> contains pat cs)"

definition glob_cache :: "(string \<times> cache_file) list \<Rightarrow> (string \<times> cache_file) list" where
  "glob_cache d = filter (\<lambda>e. is_cache_file (fst e)) d"

definition total_size :: "(string \<times> cache_file) list \<Rightarrow> int" where
  "total_size d = (\<Sum>e\<leftarrow>glob_cache d. int (st_size (snd e)))"

text \<open>
  The loop \<^verbatim>\<open>for cache_file in glob: if <test>: cache_file.unlink(); count += 1\<close> of
  \<^verbatim>\<open>invalidate_file\<close> and \<^verbatim>\<open>clear\<close>, over the directory in listing order. It yields
  whether it ran to its end, the count, and the directory it leaves: an \<^verbatim>\<open>unlink\<close>
  that raises ends the loop, and what was deleted before stays deleted.
\<close>

fun unlink_matching :: "(string \<times> cache_file \<Rightarrow> bool) \<Rightarrow> (string \<times> cache_file) list \<Rightarrow>
    bool \<times> nat \<times> (string \<times> cache_file) list" where
  "unlink_matching test [] = (True, 0, [])"
| "unlink_matching test (e # es) =
     (if test e
      then (if deletable (snd e)
            then (case unlink_matching test es of (ok, n, d') \<Rightarrow> (ok, Suc n, d'))
            else (False, 0, e # es))
      else (case unlink_matching test es of (ok, n, d') \<Rightarrow> (ok, n, e # d')))"

text \<open>
  The deletion loop of \<^verbatim>\<open>_cleanup_old_entries\<close>, over the files sorted by access time.
  An \<^verbatim>\<open>unlink\<close> that raises is caught by the method's handler, which ends the sweep.
\<close>

fun evict :: "int \<Rightarrow> (string \<times> cache_file) list \<Rightarrow> int \<Rightarrow>
    (string \<times> cache_file) list \<Rightarrow> (string \<times> cache_file) list" where
  "evict max_size_bytes [] tot d = d"
| "evict max_size_bytes (e # rest) tot d =
     (if \<not> deletable (snd e) then d
      else (let d' = AList.delete (fst e) d;
                tot' = tot - int (st_size (snd e))
            in if tot' \<le> max_size_bytes then d' else evict max_size_bytes rest tot' d'))"

definition cleanup_old_entries :: "cache_manager \<Rightarrow> cache_manager" where
  "cleanup_old_entries c =
     (let cache_files = glob_cache (cache_dir c);
          tot = total_size (cache_dir c);
          max_size_bytes = max_size_mb c * 1024 * 1024
      in if tot > max_size_bytes
         then c\<lparr>cache_dir := evict max_size_bytes (sort_key (\<lambda>e. st_atime (snd e)) cache_files)
                                 tot (cache_dir c)\<rparr>
         else c)"

definition cache_manager_get ::
    "world \<Rightarrow> cache_manager \<Rightarrow> string \<Rightarrow> string list option \<Rightarrow> string option \<times> cache_manager" where
  "cache_manager_get w c cache_key file_deps =
     (let full_key = build_cache_key w cache_key file_deps;
          cache_path = get_cache_path full_key
      in case map_of (cache_dir c) cache_path of
           None \<Rightarrow> (None, c\<lparr>misses := misses c + 1\<rparr>)
         | Some f \<Rightarrow>
             (case blob f of
                None \<Rightarrow> (None, c\<lparr>misses := misses c + 1\<rparr>)
              | Some cached_data \<Rightarrow>
                  (Some cached_data,
                   c\<lparr>cache_dir := AList.update cache_path (f\<lparr>st_atime := now w\<rparr>) (cache_dir c),
                     hits := hits c + 1\<rparr>)))"

text \<open>
  Writing with \<^verbatim>\<open>open(cache_path, 'wb')\<close> creates the file, or replaces the bytes of an
  existing one (whose access time, and whose owner, the write leaves alone).
\<close>

definition write_entry :: "world \<Rightarrow> (string \<times> cache_file) list \<Rightarrow> string \<Rightarrow> string \<Rightarrow>
    (string \<times> cache_file) list" where
  "write_entry w d cache_path v =
     AList.update cache_path
       \<lparr>blob = Some v,
        st_atime = (case map_of d cache_path of None \<Rightarrow> now w | Some f \<Rightarrow> st_atime f),
        st_size = pickle_len w v,
        deletable = (case map_of d cache_path of None \<Rightarrow> True | Some f \<Rightarrow> deletable f)\<rparr> d"

definition record_hashes :: "world \<Rightarrow> string list option \<Rightarrow> (string \<rightharpoonup> string) \<Rightarrow> (string \<rightharpoonup> string)" where
  "record_hashes w file_deps fh =
     (case file_deps of
        None \<Rightarrow> fh
      | Some deps \<Rightarrow> fold (\<lambda>file_path m. m(file_path \<mapsto> get_file_hash w file_path)) deps fh)"

definition cache_manager_set ::
    "world \<Rightarrow> cache_manager \<Rightarrow> string \<Rightarrow> string \<Rightarrow> string list option \<Rightarrow> cache_manager" where
  "cache_manager_set w c cache_key v file_deps =
     (let full_key = build_cache_key w cache_key file_deps;
          cache_path = get_cache_path full_key
      in cleanup_old_entries
           (c\<lparr>cache_dir := write_entry w (cache_dir c) cache_path v,
              file_hashes := record_hashes w file_deps (file_hashes c)\<rparr>))"

text \<open>
  \<^verbatim>\<open>if old_hash and old_hash != current_hash\<close>: a recorded, non-empty, different hash.
  When an \<^verbatim>\<open>unlink\<close> raises, the handler returns 0: the recorded hash and the
  invalidation counter are not updated.
\<close>

definition invalidate_file :: "world \<Rightarrow> cache_manager \<Rightarrow> string \<Rightarrow> nat \<times> cache_manager" where
  "invalidate_file w c file_path =
     (let current_hash = get_file_hash w file_path
      in case file_hashes c file_path of
           None \<Rightarrow> (0, c)
         | Some old_hash \<Rightarrow>
             if old_hash \<noteq> [] \<and> old_hash \<noteq> current_hash
             then (let pattern = take 8 (md5_hexdigest file_path)
                   in case unlink_matching
                             (\<lambda>e. is_cache_file (fst e) \<and> contains pattern (fst e)) (cache_dir c) of
                        (ok, invalidated, d') \<Rightarrow>
                          if ok
                          then (invalidated,
                                c\<lparr>cache_dir := d',
                                  file_hashes := (file_hashes c)(file_path \<mapsto> current_hash),
                                  invalidations := invalidations c + invalidated\<rparr>)
                          else (0, c\<lparr>cache_dir := d'\<rparr>))
             else (0, c))"

text \<open>
  When an \<^verbatim>\<open>unlink\<close> raises, the handler of \<^verbatim>\<open>clear\<close> returns 0 and the map of
  dependency hashes is not cleared.
\<close>

definition clear :: "cache_manager \<Rightarrow> nat \<times> cache_manager" where
  "clear c =
     (case unlink_matching (\<lambda>e. is_cache_file (fst e)) (cache_dir c) of
        (ok, cleared, d') \<Rightarrow>
          if ok then (cleared, c\<lparr>cache_dir := d', file_hashes := Map.empty\<rparr>)
          else (0, c\<lparr>cache_dir := d'\<rparr>))"

text \<open>
  The dictionary of \<^verbatim>\<open>get_stats\<close>, without its two floating-point renderings
  (\<^verbatim>\<open>hit_rate\<close> and \<^verbatim>\<open>cache_size_mb\<close>, here the size in bytes before the division).
\<close>

record cache_stats =
  stat_hits :: nat
  stat_misses :: nat
  stat_invalidations :: nat
  cache_size_bytes :: int
  entry_count :: nat
  stat_max_size_mb :: int

definition get_stats :: "cache_manager \<Rightarrow> cache_stats" where
  "get_stats c =
     \<lparr>stat_hits = hits c,
      stat_misses = misses c,
      stat_invalidations = invalidations c,
      cache_size_bytes = total_size (cache_dir c),
      entry_count = length (glob_cache (cache_dir c)),
      stat_max_size_mb = max_size_mb c\<rparr>"

text \<open>A run of cache operations, each in the environment current when it is called.\<close>

datatype cache_op =
    Get string "string list option"
  | Set string string "string list option"
  | InvalidateFile string
  | Clear

fun run_op :: "cache_manager \<Rightarrow> world \<times> cache_op \<Rightarrow> cache_manager" where
  "run_op c (w, Get k deps) = snd (cache_manager_get w c k deps)"
| "run_op c (w, Set k v deps) = cache_manager_set w c k v deps"
| "run_op c (w, InvalidateFile p) = snd (invalidate_file w c p)"
| "run_op c (w, Clear) = snd (clear c)"

definition run_ops :: "cache_manager \<Rightarrow> (world \<times> cache_op) list \<Rightarrow> cache_manager" where
  "run_ops c ops = foldl run_op c ops"

fun is_get :: "world \<times> cache_op \<Rightarrow> bool" where
  "is_get (w, Get k deps) = True"
| "is_get (w, other) = False"

section \<open>The tool contract (\<^verbatim>\<open>tools/base_tool.py\<close>)\<close>

text \<open>Keyword arguments are a dictionary from parameter names to (string) values.\<close>

type_synonym params = "string \<rightharpoonup> string"

record tool_metadata =
  name :: string
  description :: string
  category :: string
  context_modes :: "string list"
  requires_git :: bool
  requires_filesystem :: bool
  is_destructive :: bool
  performance_cost :: string

text \<open>
  What a call can raise: a \<^verbatim>\<open>ToolError(message, tool_name, details)\<close> or any other
  exception, of which the code only uses \<^verbatim>\<open>str(e)\<close>.
\<close>

datatype error =
    ToolError (message: string) (tool_name: string) (details: "(string \<times> string) list")
  | OtherException string

fun error_str :: "error \<Rightarrow> string" where
  "error_str (ToolError msg tn det) = tn @ '': '' @ msg"
| "error_str (OtherException text) = text"

text \<open>
  A tool is the bundle of the methods a subclass of \<^verbatim>\<open>Tool\<close> may override. Validation,
  key and dependency derivation read the environment; hooks and \<^verbatim>\<open>apply\<close> may also
  change it.
\<close>

record tool =
  metadata :: tool_metadata
  validate_params :: "world \<Rightarrow> params \<Rightarrow> error + params"
  tool_apply :: "world \<Rightarrow> params \<Rightarrow> (error + string) \<times> world"
  get_cache_key :: "world \<Rightarrow> params \<Rightarrow> error + string option"
  get_file_dependencies :: "world \<Rightarrow> params \<Rightarrow> error + string list option"
  pre_execute_hook :: "world \<Rightarrow> params \<Rightarrow> (error + unit) \<times> world"
  post_execute_hook :: "world \<Rightarrow> string \<Rightarrow> params \<Rightarrow> (error + unit) \<times> world"

text \<open>The methods of the base class \<^verbatim>\<open>Tool\<close>, which a subclass inherits unless it overrides them.\<close>

definition tool_validate_params :: "world \<Rightarrow> params \<Rightarrow> error + params" where
  "tool_validate_params w kwargs = Inr kwargs"


definition tool_get_file_dependencies :: "world \<Rightarrow> params \<Rightarrow> error + string list option" where
  "tool_get_file_dependencies w kwargs = Inr None"

definition tool_pre_execute_hook :: "world \<Rightarrow> params \<Rightarrow> (error + unit) \<times> world" where
  "tool_pre_execute_hook w kwargs = (Inr (), w)"

definition tool_post_execute_hook :: "world \<Rightarrow> string \<Rightarrow> params \<Rightarrow> (error + unit) \<times> world" where
  "tool_post_execute_hook w result kwargs = (Inr (), w)"

definition can_execute :: "tool \<Rightarrow> string option \<Rightarrow> bool" where
  "can_execute t context =
     (case context of
        None \<Rightarrow> True
      | Some ctx \<Rightarrow> if ctx \<noteq> [] \<and> ctx \<notin> set (context_modes (metadata t)) then False else True)"

subsection \<open>\<^verbatim>\<open>ReadFileTool\<close> (\<^verbatim>\<open>tools/file_tools.py\<close>)\<close>

definition read_file_metadata :: tool_metadata where
  "read_file_metadata =
     \<lparr>name = ''read_file'',
      description = ''Read the contents of a file'',
      category = ''file_operations'',
      context_modes = [''general'', ''exploration'', ''debugging'', ''refactoring''],
      requires_git = False,
      requires_filesystem = True,
      is_destructive = False,
      performance_cost = ''low''\<rparr>"

text \<open>\<^verbatim>\<open>kwargs.get(key, default)\<close>\<close>

definition kwargs_get :: "params \<Rightarrow> string \<Rightarrow> string \<Rightarrow> string" where
  "kwargs_get kwargs k dflt = (case kwargs k of None \<Rightarrow> dflt | Some v \<Rightarrow> v)"



definition read_file_get_file_dependencies :: "world \<Rightarrow> params \<Rightarrow> error + string list option" where
  "read_file_get_file_dependencies w kwargs =
     (let file_path = kwargs_get kwargs ''file_path'' []
      in if file_path \<noteq> [] then Inr (Some [file_path]) else Inr None)"

section \<open>The registry (\<^verbatim>\<open>ToolRegistry\<close>)\<close>

text \<open>
  \<^verbatim>\<open>_tools\<close> maps a name to the registered class, \<^verbatim>\<open>_instances\<close> to the instance built
  from it on the first lookup. A class is constructed without arguments, so class and
  instance are the same bundle of methods.
\<close>

record tool_registry =
  tools :: "string \<rightharpoonup> tool"
  instances :: "string \<rightharpoonup> tool"
  contexts :: "string \<rightharpoonup> string list"

definition registry_init :: tool_registry where
  "registry_init =
     \<lparr>tools = Map.empty,
      instances = Map.empty,
      contexts = [''exploration'' \<mapsto> [], ''debugging'' \<mapsto> [], ''refactoring'' \<mapsto> [],
                  ''general'' \<mapsto> []]\<rparr>"

definition register_context :: "string \<Rightarrow> string \<Rightarrow> (string \<rightharpoonup> string list) \<Rightarrow> (string \<rightharpoonup> string list)" where
  "register_context nm context m =
     (case m context of
        Some l \<Rightarrow> m(context \<mapsto> l @ [nm])
      | None \<Rightarrow> m(context \<mapsto> [nm]))"

definition register_tool :: "tool_registry \<Rightarrow> tool \<Rightarrow> tool_registry" where
  "register_tool r tool_class =
     (let md = metadata tool_class
      in r\<lparr>tools := (tools r)(name md \<mapsto> tool_class),
           contexts := fold (register_context (name md)) (context_modes md) (contexts r)\<rparr>)"

definition get_tool :: "tool_registry \<Rightarrow> string \<Rightarrow> tool option \<times> tool_registry" where
  "get_tool r nm =
     (case instances r nm of
        Some t \<Rightarrow> (Some t, r)
      | None \<Rightarrow>
          (case tools r nm of
             Some tool_class \<Rightarrow> (Some tool_class, r\<lparr>instances := (instances r)(nm \<mapsto> tool_class)\<rparr>)
           | None \<Rightarrow> (None, r)))"

subsection \<open>\<^verbatim>\<open>execute_tool\<close>\<close>

text \<open>
  The state one execution works on: the registry, the module-level cache manager, the
  environment, and a log of the hook and \<^verbatim>\<open>apply\<close> calls made so far.
\<close>

datatype call = PreExecuteHook | Apply | PostExecuteHook

record system =
  registry :: tool_registry
  cache :: cache_manager
  env :: world
  calls :: "call list"

definition quoted :: "string \<Rightarrow> string" where
  "quoted text = [CHR 0x27] @ text @ [CHR 0x27]"

text \<open>The handler of the \<^verbatim>\<open>try\<close> block: a \<^verbatim>\<open>ToolError\<close> passes, anything else is wrapped.\<close>

definition wrap_error :: "string \<Rightarrow> error \<Rightarrow> error" where
  "wrap_error nm e =
     (case e of
        ToolError msg tn det \<Rightarrow> e
      | OtherException text \<Rightarrow>
          ToolError (''Execution failed: '' @ text) nm [(''original_error'', text)])"

text \<open>\<^verbatim>\<open>if cache_key:\<close> holds for a key that is neither \<^verbatim>\<open>None\<close> nor the empty string.\<close>

definition truthy :: "string option \<Rightarrow> bool" where
  "truthy cache_key = (case cache_key of None \<Rightarrow> False | Some k \<Rightarrow> k \<noteq> [])"

text \<open>The part of \<^verbatim>\<open>execute_tool\<close> after the cache lookup: hooks, \<^verbatim>\<open>apply\<close>, and the store.\<close>

definition run_tool :: "tool \<Rightarrow> string \<Rightarrow> params \<Rightarrow> string option \<Rightarrow> system \<Rightarrow> (error + string) \<times> system" where
  "run_tool t nm validated_params cache_key s =
     (case pre_execute_hook t (env s) validated_params of
        (Inl e, w1) \<Rightarrow>
          (Inl (wrap_error nm e), s\<lparr>env := w1, calls := calls s @ [PreExecuteHook]\<rparr>)
      | (Inr u, w1) \<Rightarrow>
          (case tool_apply t w1 validated_params of
             (Inl e, w2) \<Rightarrow>
               (Inl (wrap_error nm e), s\<lparr>env := w2, calls := calls s @ [PreExecuteHook, Apply]\<rparr>)
           | (Inr result, w2) \<Rightarrow>
               (case post_execute_hook t w2 result validated_params of
                  (Inl e, w3) \<Rightarrow>
                    (Inl (wrap_error nm e),
                     s\<lparr>env := w3, calls := calls s @ [PreExecuteHook, Apply, PostExecuteHook]\<rparr>)
                | (Inr u', w3) \<Rightarrow>
                    (let s3 = s\<lparr>env := w3,
                                 calls := calls s @ [PreExecuteHook, Apply, PostExecuteHook]\<rparr>
                     in if truthy cache_key
                        then (case get_file_dependencies t w3 validated_params of
                                Inl e \<Rightarrow> (Inl (wrap_error nm e), s3)
                              | Inr file_deps \<Rightarrow>
                                  (Inr result,
                                   s3\<lparr>cache := cache_manager_set w3 (cache s3)
                                                 (case cache_key of None \<Rightarrow> [] | Some k \<Rightarrow> k)
                                                 result file_deps\<rparr>))
                        else (Inr result, s3)))))"

definition execute_tool :: "system \<Rightarrow> string \<Rightarrow> string option \<Rightarrow> params \<Rightarrow> (error + string) \<times> system" where
  "execute_tool s nm context kwargs =
     (case get_tool (registry s) nm of
        (None, r) \<Rightarrow>
          (Inl (ToolError (''Tool '' @ quoted nm @ '' not found'') nm []), s\<lparr>registry := r\<rparr>)
      | (Some t, r) \<Rightarrow>
          (let s1 = s\<lparr>registry := r\<rparr>
           in if \<not> can_execute t context
              then (Inl (ToolError (''Tool '' @ quoted nm @ '' cannot execute in context ''
                                     @ quoted (case context of None \<Rightarrow> ''None'' | Some ctx \<Rightarrow> ctx))
                                   nm []), s1)
              else (case validate_params t (env s1) kwargs of
                      Inl e \<Rightarrow> (Inl (wrap_error nm e), s1)
                    | Inr validated_params \<Rightarrow>
                        (case get_cache_key t (env s1) validated_params of
                           Inl e \<Rightarrow> (Inl (wrap_error nm e), s1)
                         | Inr cache_key \<Rightarrow>
                             if truthy cache_key
                             then (case get_file_dependencies t (env s1) validated_params of
                                     Inl e \<Rightarrow> (Inl (wrap_error nm e), s1)
                                   | Inr file_deps \<Rightarrow>
                                       (case cache_manager_get (env s1) (cache s1)
                                               (case cache_key of None \<Rightarrow> [] | Some k \<Rightarrow> k) file_deps of
                                          (Some cached_result, c') \<Rightarrow>
                                            (Inr cached_result, s1\<lparr>cache := c'\<rparr>)
                                        | (None, c') \<Rightarrow>
                                            run_tool t nm validated_params cache_key (s1\<lparr>cache := c'\<rparr>)))
                             else run_tool t nm validated_params cache_key s1))))"

text \<open>The registries that arise: the empty one, and whatever registrations and lookups make of it.\<close>

inductive reachable :: "tool_registry \<Rightarrow> bool" where
  reachable_init: "reachable registry_init"
| reachable_register: "reachable r \<Longrightarrow> reachable (register_tool r tool_class)"
| reachable_get: "reachable r \<Longrightarrow> reachable (snd (get_tool r nm))"

section \<open>Concrete states used to run the definitions\<close>

text \<open>
  \<^verbatim>\<open>CacheManager.__init__\<close> with the default limit of 100 MB: counters at zero, no
  recorded hashes, and the cache directory as it is found on disk.
\<close>

definition cache_manager_init :: "(string \<times> cache_file) list \<Rightarrow> cache_manager" where
  "cache_manager_init d =
     \<lparr>cache_dir = d, max_size_mb = 100, hits = 0, misses = 0, invalidations = 0,
      file_hashes = Map.empty\<rparr>"

text \<open>
  The environment at time \<open>t\<close> in which \<^verbatim>\<open>/a\<close> is a readable file with the given bytes and
  modification time, and no other path exists.
\<close>

definition file_world :: "string \<Rightarrow> string \<Rightarrow> nat \<Rightarrow> world" where
  "file_world content m t =
     \<lparr>files = [''/a'' \<mapsto> Readable content (Abs_float_str m)], now = t,
      pickle_len = (\<lambda>v. length v + 15)\<rparr>"

text \<open>
  A tool in the style of the registry's tests: it inherits validation and hooks from the
  base class, returns a fixed result, and declares a fixed cache key and fixed
  dependencies.
\<close>

definition fixed_tool ::
    "string \<Rightarrow> string \<Rightarrow> string list \<Rightarrow> string option \<Rightarrow> string list option \<Rightarrow> string \<Rightarrow> tool" where
  "fixed_tool nm descr modes key deps result =
     \<lparr>metadata = \<lparr>name = nm, description = descr, category = ''test'', context_modes = modes,
                   requires_git = False, requires_filesystem = False, is_destructive = False,
                   performance_cost = ''low''\<rparr>,
      validate_params = tool_validate_params,
      tool_apply = (\<lambda>w kwargs. (Inr result, w)),
      get_cache_key = (\<lambda>w kwargs. Inr key),
      get_file_dependencies = (\<lambda>w kwargs. Inr deps),
      pre_execute_hook = tool_pre_execute_hook,
      post_execute_hook = tool_post_execute_hook\<rparr>"

text \<open>
  An entry file, last accessed at time 0, that holds the pickled value \<open>v\<close> and that the
  process may delete.
\<close>

definition stored :: "string \<Rightarrow> cache_file" where
  "stored v = \<lparr>blob = Some v, st_atime = 0, st_size = length v + 15, deletable = True\<rparr>"

text \<open>
  A system before its first call: one tool registered, a new cache manager over the
  given directory, no call logged.
\<close>

definition system_with :: "tool \<Rightarrow> (string \<times> cache_file) list \<Rightarrow> world \<Rightarrow> system" where
  "system_with t d w =
     \<lparr>registry = register_tool registry_init t, cache = cache_manager_init d, env = w,
      calls = []\<rparr>"

section \<open>Properties of the cache store\<close>

subsection \<open>Digests, key strings and the cache directory\<close>

lemma hex_digit_in: "hex_digit n \<in> set ''0123456789abcdef''"
proof -
  have "nat (n mod 16) < length ''0123456789abcdef''" by simp
  then show ?thesis unfolding hex_digit_def by (rule nth_mem)
qed

lemma hex_digit_no_bar: "hex_digit n \<noteq> CHR ''|''"
  using hex_digit_in [of n] by auto

lemma hex_byte_no_bar: "CHR ''|'' \<notin> set (hex_byte b)"
  using hex_digit_no_bar [of "b div 16"] hex_digit_no_bar [of b]
  by (auto simp: hex_byte_def)

lemma md5_hexdigest_no_bar: "CHR ''|'' \<notin> set (md5_hexdigest s)"
  by (simp add: md5_hexdigest_def hex_byte_no_bar)

lemma float_str_no_bar: "CHR ''|'' \<notin> set (Rep_float_str m)"
  using Rep_float_str [of m] by auto

lemma get_file_hash_no_bar: "CHR ''|'' \<notin> set (get_file_hash w p)"
  by (simp add: get_file_hash_def md5_hexdigest_no_bar float_str_no_bar split: option.splits fs_node.splits)

lemma join_Cons: "join sep (x # xs) = x @ concat (map (\<lambda>y. sep @ y) xs)"
  by (induction xs arbitrary: x) auto

lemma takeWhile_bar:
  assumes "CHR ''|'' \<notin> set u" and "r = [] \<or> hd r = CHR ''|''"
  shows "takeWhile (\<lambda>c. c \<noteq> CHR ''|'') (u @ r) = u"
proof -
  have a: "\<And>x. x \<in> set u \<Longrightarrow> x \<noteq> CHR ''|''" using assms(1) by auto
  have b: "takeWhile (\<lambda>c. c \<noteq> CHR ''|'') r = []" using assms(2) by (cases r) auto
  show ?thesis using takeWhile_append2 [of u "\<lambda>c. c \<noteq> CHR ''|''" r, OF a] b by simp
qed

lemma bar_split:
  assumes "CHR ''|'' \<notin> set u" and "CHR ''|'' \<notin> set u'"
      and "r = [] \<or> hd r = CHR ''|''" and "r' = [] \<or> hd r' = CHR ''|''"
      and "u @ r = u' @ r'"
  shows "u = u' \<and> r = r'"
proof -
  have "u = takeWhile (\<lambda>c. c \<noteq> CHR ''|'') (u @ r)"
    using takeWhile_bar [OF assms(1,3)] by simp
  also have "\<dots> = takeWhile (\<lambda>c. c \<noteq> CHR ''|'') (u' @ r')" using assms(5) by simp
  also have "\<dots> = u'" using takeWhile_bar [OF assms(2,4)] by simp
  finally have "u = u'" .
  with assms(5) show ?thesis by simp
qed

lemma parts_inj:
  assumes "\<forall>p\<in>set deps. CHR ''|'' \<notin> set (h p) \<and> CHR ''|'' \<notin> set (h' p)"
      and "concat (map (\<lambda>p. ''|'' @ p @ '':'' @ h p) deps)
           = concat (map (\<lambda>p. ''|'' @ p @ '':'' @ h' p) deps)"
  shows "\<forall>p\<in>set deps. h p = h' p"
  using assms
proof (induction deps)
  case Nil
  then show ?case by simp
next
  case (Cons p ps)
  let ?r = "concat (map (\<lambda>p. ''|'' @ p @ '':'' @ h p) ps)"
  let ?r' = "concat (map (\<lambda>p. ''|'' @ p @ '':'' @ h' p) ps)"
  have e: "h p @ ?r = h' p @ ?r'" using Cons.prems(2) by simp
  have r: "?r = [] \<or> hd ?r = CHR ''|''" by (cases ps) simp_all
  have r': "?r' = [] \<or> hd ?r' = CHR ''|''" by (cases ps) simp_all
  have u: "CHR ''|'' \<notin> set (h p)" and u': "CHR ''|'' \<notin> set (h' p)"
    using Cons.prems(1) by simp_all
  have both: "h p = h' p \<and> ?r = ?r'" by (rule bar_split [OF u u' r r' e])
  have rest: "\<forall>p\<in>set ps. CHR ''|'' \<notin> set (h p) \<and> CHR ''|'' \<notin> set (h' p)"
    using Cons.prems(1) by simp
  have "\<forall>p\<in>set ps. h p = h' p"
    by (rule Cons.IH [OF rest conjunct2 [OF both]])
  then show ?case using conjunct1 [OF both] by simp
qed

lemma key_string_eq:
  "join ''|'' (key_parts w k (Some deps))
     = k @ concat (map (\<lambda>p. ''|'' @ p @ '':'' @ get_file_hash w p) deps)"
  by (simp add: key_parts_def join_Cons comp_def)

lemma key_string_differs:
  assumes "\<exists>p\<in>set deps. get_file_hash w' p \<noteq> get_file_hash w p"
  shows "join ''|'' (key_parts w' k (Some deps)) \<noteq> join ''|'' (key_parts w k (Some deps))"
proof
  assume a: "join ''|'' (key_parts w' k (Some deps)) = join ''|'' (key_parts w k (Some deps))"
  have e: "concat (map (\<lambda>p. ''|'' @ p @ '':'' @ get_file_hash w' p) deps)
           = concat (map (\<lambda>p. ''|'' @ p @ '':'' @ get_file_hash w p) deps)"
    using a unfolding key_string_eq by (rule same_append_eq [THEN iffD1])
  have n: "\<forall>p\<in>set deps. CHR ''|'' \<notin> set (get_file_hash w' p) \<and> CHR ''|'' \<notin> set (get_file_hash w p)"
    by (simp add: get_file_hash_no_bar)
  have "\<forall>p\<in>set deps. get_file_hash w' p = get_file_hash w p"
    by (rule parts_inj [OF n e])
  with assms show False by blast
qed

lemma map_of_evict_None:
  "map_of d n = None \<Longrightarrow> map_of (evict m l tot d) n = None"
proof (induction l arbitrary: tot d)
  case Nil
  then show ?case by simp
next
  case (Cons e rest)
  have "map_of (AList.delete (fst e) d) n = None"
    using Cons.prems by (simp add: delete_conv')
  then show ?case using Cons.IH Cons.prems by (simp add: Let_def)
qed

lemma map_of_cleanup_None:
  "map_of (cache_dir c) n = None \<Longrightarrow> map_of (cache_dir (cleanup_old_entries c)) n = None"
  by (simp add: cleanup_old_entries_def Let_def map_of_evict_None)

lemma map_of_write_entry:
  "map_of (write_entry w d p v) n =
     (if n = p then Some \<lparr>blob = Some v,
                           st_atime = (case map_of d p of None \<Rightarrow> now w | Some f \<Rightarrow> st_atime f),
                           st_size = pickle_len w v,
                           deletable = (case map_of d p of None \<Rightarrow> True | Some f \<Rightarrow> deletable f)\<rparr>
      else map_of d n)"
  by (simp add: write_entry_def update_conv')

lemma map_of_set_other:
  assumes "n \<noteq> get_cache_path (build_cache_key w k deps)" and "map_of (cache_dir c) n = None"
  shows "map_of (cache_dir (cache_manager_set w c k v deps)) n = None"
  unfolding cache_manager_set_def Let_def
  by (rule map_of_cleanup_None) (simp add: map_of_write_entry assms)

lemma get_cache_path_inj: "(get_cache_path a = get_cache_path b) = (a = b)"
  by (simp add: get_cache_path_def)

lemma is_cache_file_path: "is_cache_file (get_cache_path key)"
  by (simp add: is_cache_file_def get_cache_path_def)

lemma get_miss:
  assumes "map_of (cache_dir c) (get_cache_path (build_cache_key w k deps)) = None"
  shows "cache_manager_get w c k deps = (None, c\<lparr>misses := misses c + 1\<rparr>)"
  using assms by (simp add: cache_manager_get_def)



lemma build_cache_key_differs:
  assumes "\<exists>p\<in>set deps. get_file_hash w' p \<noteq> get_file_hash w p"
      and "\<not> md5_collision (join ''|'' (key_parts w' k (Some deps)))
                             (join ''|'' (key_parts w k (Some deps)))"
  shows "build_cache_key w' k (Some deps) \<noteq> build_cache_key w k (Some deps)"
  using key_string_differs [OF assms(1), of k] assms(2)
  by (simp add: build_cache_key_def md5_collision_def)




lemma md5_k: "md5_hexdigest ''k'' = ''8ce4b16b22b58894aa86c421e8759df3''" by code_simp

lemma md5_x: "md5_hexdigest ''x'' = ''9dd4e461268c8034f5c8564e155c67a6''" by code_simp

lemma md5_y: "md5_hexdigest ''y'' = ''415290769594460e2e485922904f345d''" by code_simp

lemma md5_path_a: "md5_hexdigest ''/a'' = ''0639767f3e9eaad729b54037a7e2abf5''" by code_simp

lemma md5_key_x: "md5_hexdigest ''k|/a:9dd4e461268c8034f5c8564e155c67a6'' = ''9bed0881290dc3e3730787a61373dff3''" by code_simp

lemma md5_key_y: "md5_hexdigest ''k|/a:415290769594460e2e485922904f345d'' = ''814b10c3ab460f781052afa4a1138417''" by code_simp



lemma file_world_sel:
  "now (file_world content m t) = t"
  "pickle_len (file_world content m t) v = length v + 15"
  by (simp_all add: file_world_def)

lemma file_world_hash:
  "get_file_hash (file_world content m t) ''/a'' = md5_hexdigest content"
  "get_file_hash (file_world content m t) ''/b'' = ''nonexistent''"
  by (simp_all add: get_file_hash_def file_world_def path_exists_def)

lemma key_x: "build_cache_key (file_world ''x'' m t) ''k'' (Some [''/a'']) = ''9bed0881290dc3e3730787a61373dff3''"
  by (simp add: build_cache_key_def key_parts_def file_world_hash md5_x md5_key_x)

lemma key_y: "build_cache_key (file_world ''y'' m t) ''k'' (Some [''/a'']) = ''814b10c3ab460f781052afa4a1138417''"
  by (simp add: build_cache_key_def key_parts_def file_world_hash md5_y md5_key_y)

lemmas run_defs = cache_manager_set_def cache_manager_get_def write_entry_def cleanup_old_entries_def
  total_size_def glob_cache_def is_cache_file_def get_cache_path_def cache_manager_init_def
  record_hashes_def file_world_sel Let_def



subsection \<open>Counters\<close>

lemma get_counts:
  "hits (snd (cache_manager_get w c k deps)) + misses (snd (cache_manager_get w c k deps))
     = hits c + misses c + 1"
  by (simp add: cache_manager_get_def Let_def split: option.splits)

lemma cleanup_frame:
  "hits (cleanup_old_entries c) = hits c \<and> misses (cleanup_old_entries c) = misses c \<and>
   invalidations (cleanup_old_entries c) = invalidations c \<and>
   file_hashes (cleanup_old_entries c) = file_hashes c \<and>
   max_size_mb (cleanup_old_entries c) = max_size_mb c"
  by (simp add: cleanup_old_entries_def Let_def)

lemma set_counters:
  "hits (cache_manager_set w c k v deps) = hits c \<and>
   misses (cache_manager_set w c k v deps) = misses c"
  by (simp add: cache_manager_set_def Let_def cleanup_frame)

lemma invalidate_counters:
  "hits (snd (invalidate_file w c p)) = hits c \<and> misses (snd (invalidate_file w c p)) = misses c"
  by (simp add: invalidate_file_def Let_def split: option.splits prod.splits)

lemma clear_counters:
  "hits (snd (clear c)) = hits c \<and> misses (snd (clear c)) = misses c \<and>
   invalidations (snd (clear c)) = invalidations c"
  by (simp add: clear_def split: prod.splits)

lemma run_op_counts:
  "hits (run_op c x) + misses (run_op c x) = hits c + misses c + (if is_get x then 1 else 0)"
proof (cases x)
  case (Pair w op)
  then show ?thesis
    by (cases op) (simp_all add: get_counts set_counters invalidate_counters clear_counters)
qed

lemma run_ops_counts:
  "hits (run_ops c ops) + misses (run_ops c ops)
     = hits c + misses c + length (filter is_get ops)"
  unfolding run_ops_def
proof (induction ops arbitrary: c)
  case Nil
  then show ?case by simp
next
  case (Cons x xs)
  show ?case using Cons.IH [of "run_op c x"] run_op_counts [of c x] by simp
qed

lemma get_hit_or_miss:
  "(fst (cache_manager_get w c k deps) = None) =
     (case map_of (cache_dir c) (get_cache_path (build_cache_key w k deps)) of
        None \<Rightarrow> True
      | Some f \<Rightarrow> blob f = None)"
  by (simp add: cache_manager_get_def Let_def split: option.splits)

lemma get_counter_moved:
  "(hits (snd (cache_manager_get w c k deps)), misses (snd (cache_manager_get w c k deps))) =
     (if fst (cache_manager_get w c k deps) = None then (hits c, misses c + 1)
      else (hits c + 1, misses c))"
  by (simp add: cache_manager_get_def Let_def split: option.splits)

text \<open>
  C9: every call of \<open>get\<close> adds one to exactly one of the two counters: to \<open>misses\<close> when
  it returns no value, which is when no entry is stored under the composite key or the
  stored bytes cannot be loaded, and to \<open>hits\<close> otherwise. Storing, invalidating and
  clearing leave both counters alone, so after any run of operations \<open>hits + misses\<close>
  has grown by the number of \<open>get\<close> calls in the run.
\<close>

theorem get_counts_one_of_hits_misses:
  "(fst (cache_manager_get w c k deps) = None \<longrightarrow>
      hits (snd (cache_manager_get w c k deps)) = hits c \<and>
      misses (snd (cache_manager_get w c k deps)) = misses c + 1) \<and>
   (fst (cache_manager_get w c k deps) \<noteq> None \<longrightarrow>
      hits (snd (cache_manager_get w c k deps)) = hits c + 1 \<and>
      misses (snd (cache_manager_get w c k deps)) = misses c) \<and>
   (fst (cache_manager_get w c k deps) = None) =
      (case map_of (cache_dir c) (get_cache_path (build_cache_key w k deps)) of
         None \<Rightarrow> True
       | Some f \<Rightarrow> blob f = None) \<and>
   hits (cache_manager_set w c k v deps) = hits c \<and>
   misses (cache_manager_set w c k v deps) = misses c \<and>
   hits (snd (invalidate_file w c p)) = hits c \<and>
   misses (snd (invalidate_file w c p)) = misses c \<and>
   hits (snd (clear c)) = hits c \<and>
   misses (snd (clear c)) = misses c \<and>
   hits (run_ops c ops) + misses (run_ops c ops)
     = hits c + misses c + length (filter is_get ops)"
  using get_counter_moved [of w c k deps] get_hit_or_miss [of w c k deps]
    set_counters [of w c k v deps] invalidate_counters [of w c p] clear_counters [of c]
    run_ops_counts [of c ops]
  by (simp split: if_splits)

theorem get_counts_one_of_hits_misses_witness:
  "fst (cache_manager_get (file_world ''x'' ''1.0'' 1) (cache_manager_init []) ''k'' None) = None \<and>
   misses (snd (cache_manager_get (file_world ''x'' ''1.0'' 1) (cache_manager_init []) ''k'' None)) = 1 \<and>
   hits (snd (cache_manager_get (file_world ''x'' ''1.0'' 1) (cache_manager_init []) ''k'' None)) = 0 \<and>
   fst (cache_manager_get (file_world ''x'' ''1.0'' 1)
          (cache_manager_init [(''8ce4b16b22b58894aa86c421e8759df3.cache'', stored ''v'')])
          ''k'' None) = Some ''v'' \<and>
   hits (snd (cache_manager_get (file_world ''x'' ''1.0'' 1)
          (cache_manager_init [(''8ce4b16b22b58894aa86c421e8759df3.cache'', stored ''v'')])
          ''k'' None)) = 1 \<and>
   misses (snd (cache_manager_get (file_world ''x'' ''1.0'' 1)
          (cache_manager_init [(''8ce4b16b22b58894aa86c421e8759df3.cache'', stored ''v'')])
          ''k'' None)) = 0 \<and>
   hits (run_ops (cache_manager_init [])
           [(file_world ''x'' ''1.0'' 1, Get ''k'' None),
            (file_world ''x'' ''1.0'' 1, Set ''k'' ''v'' None),
            (file_world ''x'' ''1.0'' 2, Get ''k'' None),
            (file_world ''x'' ''1.0'' 3, Clear)])
     + misses (run_ops (cache_manager_init [])
           [(file_world ''x'' ''1.0'' 1, Get ''k'' None),
            (file_world ''x'' ''1.0'' 1, Set ''k'' ''v'' None),
            (file_world ''x'' ''1.0'' 2, Get ''k'' None),
            (file_world ''x'' ''1.0'' 3, Clear)]) = 2"
proof -
  have miss: "fst (cache_manager_get (file_world ''x'' ''1.0'' 1) (cache_manager_init []) ''k'' None) = None"
    by (simp add: cache_manager_get_def cache_manager_init_def)
  have hit: "fst (cache_manager_get (file_world ''x'' ''1.0'' 1)
          (cache_manager_init [(''8ce4b16b22b58894aa86c421e8759df3.cache'', stored ''v'')])
          ''k'' None) = Some ''v''"
    by (simp add: cache_manager_get_def cache_manager_init_def build_cache_key_def key_parts_def
        md5_k get_cache_path_def stored_def)
  show ?thesis
    using miss hit
      get_counts_one_of_hits_misses [of "file_world ''x'' ''1.0'' 1" "cache_manager_init []" "''k''" None]
      get_counts_one_of_hits_misses [of "file_world ''x'' ''1.0'' 1"
        "cache_manager_init [(''8ce4b16b22b58894aa86c421e8759df3.cache'', stored ''v'')]" "''k''" None]
      get_counts_one_of_hits_misses [where c = "cache_manager_init []" and ops =
           "[(file_world ''x'' ''1.0'' 1, Get ''k'' None),
            (file_world ''x'' ''1.0'' 1, Set ''k'' ''v'' None),
            (file_world ''x'' ''1.0'' 2, Get ''k'' None),
            (file_world ''x'' ''1.0'' 3, Clear)]"]
    by (simp add: cache_manager_init_def)
qed

subsection \<open>Clearing\<close>

lemma unlink_matching_ok:
  "\<forall>e\<in>set d. test e \<longrightarrow> deletable (snd e) \<Longrightarrow>
   unlink_matching test d = (True, length (filter test d), filter (\<lambda>e. \<not> test e) d)"
  by (induction d) simp_all

lemma unlink_matching_fails:
  "\<exists>e\<in>set d. test e \<and> \<not> deletable (snd e) \<Longrightarrow> fst (unlink_matching test d) = False"
proof (induction d)
  case Nil
  then show ?case by simp
next
  case (Cons e es)
  show ?case
  proof (cases "test e \<and> \<not> deletable (snd e)")
    case True
    then show ?thesis by simp
  next
    case False
    then have "\<exists>x\<in>set es. test x \<and> \<not> deletable (snd x)" using Cons.prems by auto
    then have "fst (unlink_matching test es) = False" by (rule Cons.IH)
    then show ?thesis by (cases "unlink_matching test es") auto
  qed
qed

lemma unlink_matching_again:
  "\<not> fst (unlink_matching test d) \<Longrightarrow>
   \<not> fst (unlink_matching test (snd (snd (unlink_matching test d))))"
  by (induction d) (auto split: prod.splits if_splits)

lemma clear_all_deletable:
  assumes "\<forall>e\<in>set (glob_cache (cache_dir c)). deletable (snd e)"
  shows "clear c = (length (glob_cache (cache_dir c)),
                    c\<lparr>cache_dir := filter (\<lambda>e. \<not> is_cache_file (fst e)) (cache_dir c),
                      file_hashes := Map.empty\<rparr>)"
proof -
  have "\<forall>e\<in>set (cache_dir c). is_cache_file (fst e) \<longrightarrow> deletable (snd e)"
    using assms unfolding glob_cache_def by fastforce
  then have "unlink_matching (\<lambda>e. is_cache_file (fst e)) (cache_dir c)
               = (True, length (filter (\<lambda>e. is_cache_file (fst e)) (cache_dir c)),
                  filter (\<lambda>e. \<not> is_cache_file (fst e)) (cache_dir c))"
    by (rule unlink_matching_ok)
  then show ?thesis by (simp add: clear_def glob_cache_def)
qed

lemma clear_failed_unlink:
  assumes "\<exists>e\<in>set (glob_cache (cache_dir c)). \<not> deletable (snd e)"
  shows "fst (clear c) = 0 \<and> file_hashes (snd (clear c)) = file_hashes c"
proof -
  from assms obtain e where e: "e \<in> set (glob_cache (cache_dir c))" "\<not> deletable (snd e)"
    by blast
  from e(1) have "e \<in> set (cache_dir c)" "is_cache_file (fst e)"
    by (simp_all add: glob_cache_def)
  with e(2) have "\<exists>e\<in>set (cache_dir c). is_cache_file (fst e) \<and> \<not> deletable (snd e)"
    by blast
  then have "fst (unlink_matching (\<lambda>e. is_cache_file (fst e)) (cache_dir c)) = False"
    by (rule unlink_matching_fails)
  then show ?thesis
    by (cases "unlink_matching (\<lambda>e. is_cache_file (fst e)) (cache_dir c)") (simp add: clear_def)
qed

text \<open>
  C7, as the code has it: when every entry of the cache directory can be deleted,
  \<open>clear\<close> deletes them all, empties the map of dependency hashes and returns the number
  of entries it deleted, and the statistics then report an entry count of 0. When a
  deletion raises, \<open>clear\<close> returns 0 and leaves the map of dependency hashes as it is.
  In both cases the hit, miss and invalidation counters are as before.
\<close>

theorem clear_deletes_all_keeps_counters:
  "((\<forall>e\<in>set (glob_cache (cache_dir c)). deletable (snd e)) \<longrightarrow>
      fst (clear c) = length (glob_cache (cache_dir c)) \<and>
      length (cache_dir c) = length (cache_dir (snd (clear c))) + fst (clear c) \<and>
      glob_cache (cache_dir (snd (clear c))) = [] \<and>
      file_hashes (snd (clear c)) = Map.empty \<and>
      entry_count (get_stats (snd (clear c))) = 0) \<and>
   ((\<exists>e\<in>set (glob_cache (cache_dir c)). \<not> deletable (snd e)) \<longrightarrow>
      fst (clear c) = 0 \<and> file_hashes (snd (clear c)) = file_hashes c) \<and>
   hits (snd (clear c)) = hits c \<and>
   misses (snd (clear c)) = misses c \<and>
   invalidations (snd (clear c)) = invalidations c \<and>
   stat_hits (get_stats (snd (clear c))) = stat_hits (get_stats c) \<and>
   stat_misses (get_stats (snd (clear c))) = stat_misses (get_stats c) \<and>
   stat_invalidations (get_stats (snd (clear c))) = stat_invalidations (get_stats c)"
proof -
  have ok: "(\<forall>e\<in>set (glob_cache (cache_dir c)). deletable (snd e)) \<longrightarrow>
      fst (clear c) = length (glob_cache (cache_dir c)) \<and>
      length (cache_dir c) = length (cache_dir (snd (clear c))) + fst (clear c) \<and>
      glob_cache (cache_dir (snd (clear c))) = [] \<and>
      file_hashes (snd (clear c)) = Map.empty \<and>
      entry_count (get_stats (snd (clear c))) = 0"
    by (simp add: clear_all_deletable glob_cache_def get_stats_def sum_length_filter_compl
        add.commute)
  have failed: "(\<exists>e\<in>set (glob_cache (cache_dir c)). \<not> deletable (snd e)) \<longrightarrow>
      fst (clear c) = 0 \<and> file_hashes (snd (clear c)) = file_hashes c"
    using clear_failed_unlink [of c] by blast
  show ?thesis
    using ok failed clear_counters [of c] by (simp add: get_stats_def)
qed

theorem clear_deletes_all_keeps_counters_witness:
  "fst (clear ((cache_manager_init [(''8ce4b16b22b58894aa86c421e8759df3.cache'', stored ''v''),
                                     (''notes.txt'', stored ''n'')])
                 \<lparr>file_hashes := [''/a'' \<mapsto> ''h''], hits := 3\<rparr>)) = 1 \<and>
   entry_count (get_stats (snd (clear
       ((cache_manager_init [(''8ce4b16b22b58894aa86c421e8759df3.cache'', stored ''v''),
                             (''notes.txt'', stored ''n'')])
          \<lparr>file_hashes := [''/a'' \<mapsto> ''h''], hits := 3\<rparr>)))) = 0 \<and>
   file_hashes (snd (clear
       ((cache_manager_init [(''8ce4b16b22b58894aa86c421e8759df3.cache'', stored ''v''),
                             (''notes.txt'', stored ''n'')])
          \<lparr>file_hashes := [''/a'' \<mapsto> ''h''], hits := 3\<rparr>))) = Map.empty \<and>
   hits (snd (clear
       ((cache_manager_init [(''8ce4b16b22b58894aa86c421e8759df3.cache'', stored ''v''),
                             (''notes.txt'', stored ''n'')])
          \<lparr>file_hashes := [''/a'' \<mapsto> ''h''], hits := 3\<rparr>))) = 3"
proof -
  have all: "\<forall>e\<in>set (glob_cache (cache_dir
       ((cache_manager_init [(''8ce4b16b22b58894aa86c421e8759df3.cache'', stored ''v''),
                             (''notes.txt'', stored ''n'')])
          \<lparr>file_hashes := [''/a'' \<mapsto> ''h''], hits := 3\<rparr>))). deletable (snd e)"
    by (simp add: glob_cache_def cache_manager_init_def stored_def)
  show ?thesis
    using all clear_deletes_all_keeps_counters
      [of "(cache_manager_init [(''8ce4b16b22b58894aa86c421e8759df3.cache'', stored ''v''),
                                (''notes.txt'', stored ''n'')])
             \<lparr>file_hashes := [''/a'' \<mapsto> ''h''], hits := 3\<rparr>"]
    by (simp add: glob_cache_def is_cache_file_def cache_manager_init_def)
qed

text \<open>
  The claim as stated fails in a cache state with an entry that cannot be deleted:
  \<open>clear\<close> returns 0, the statistics still count the entry, and the map of dependency
  hashes keeps what it held.
\<close>

theorem clear_stops_at_failed_unlink:
  "fst (clear ((cache_manager_init
                  [(''8ce4b16b22b58894aa86c421e8759df3.cache'', (stored ''v'')\<lparr>deletable := False\<rparr>)])
                 \<lparr>file_hashes := [''/a'' \<mapsto> ''h'']\<rparr>)) = 0 \<and>
   entry_count (get_stats (snd (clear ((cache_manager_init
                  [(''8ce4b16b22b58894aa86c421e8759df3.cache'', (stored ''v'')\<lparr>deletable := False\<rparr>)])
                 \<lparr>file_hashes := [''/a'' \<mapsto> ''h'']\<rparr>)))) = 1 \<and>
   file_hashes (snd (clear ((cache_manager_init
                  [(''8ce4b16b22b58894aa86c421e8759df3.cache'', (stored ''v'')\<lparr>deletable := False\<rparr>)])
                 \<lparr>file_hashes := [''/a'' \<mapsto> ''h'']\<rparr>))) ''/a'' = Some ''h''"
  by (simp add: clear_def get_stats_def glob_cache_def is_cache_file_def cache_manager_init_def
      stored_def)

subsection \<open>A changed dependency\<close>

text \<open>
  C1, as the code has it: when a value was stored with \<open>set\<close> and the content hash of
  some dependency in the list has changed since, \<open>get\<close> with the same base key and list
  computes a composite key different from the one used by the store (unless MD5 collides
  on the two key strings); it returns no value and counts a miss provided the store held
  no entry under that new key before the \<open>set\<close>. In the conclusion the environment of
  the store is \<open>w\<close> and that of the lookup is \<open>w'\<close>.
\<close>

theorem changed_dependency_misses:
  assumes "\<exists>p\<in>set deps. get_file_hash w' p \<noteq> get_file_hash w p"
      and "\<not> md5_collision (join ''|'' (key_parts w' k (Some deps)))
                             (join ''|'' (key_parts w k (Some deps)))"
      and "map_of (cache_dir c) (get_cache_path (build_cache_key w' k (Some deps))) = None"
  shows "build_cache_key w' k (Some deps) \<noteq> build_cache_key w k (Some deps) \<and>
         fst (cache_manager_get w' (cache_manager_set w c k v (Some deps)) k (Some deps)) = None \<and>
         misses (snd (cache_manager_get w' (cache_manager_set w c k v (Some deps)) k (Some deps)))
           = misses c + 1 \<and>
         hits (snd (cache_manager_get w' (cache_manager_set w c k v (Some deps)) k (Some deps)))
           = hits c"
proof -
  have d: "build_cache_key w' k (Some deps) \<noteq> build_cache_key w k (Some deps)"
    by (rule build_cache_key_differs [OF assms(1,2)])
  then have "get_cache_path (build_cache_key w' k (Some deps))
               \<noteq> get_cache_path (build_cache_key w k (Some deps))"
    by (simp add: get_cache_path_inj)
  then have "map_of (cache_dir (cache_manager_set w c k v (Some deps)))
               (get_cache_path (build_cache_key w' k (Some deps))) = None"
    using assms(3) by (rule map_of_set_other)
  then have "cache_manager_get w' (cache_manager_set w c k v (Some deps)) k (Some deps)
               = (None, (cache_manager_set w c k v (Some deps))
                          \<lparr>misses := misses (cache_manager_set w c k v (Some deps)) + 1\<rparr>)"
    by (rule get_miss)
  then show ?thesis using d by (simp add: set_counters)
qed

theorem changed_dependency_misses_witness:
  "build_cache_key (file_world ''y'' ''2.0'' 2) ''k'' (Some [''/a''])
     \<noteq> build_cache_key (file_world ''x'' ''1.0'' 1) ''k'' (Some [''/a'']) \<and>
   fst (cache_manager_get (file_world ''y'' ''2.0'' 2)
          (cache_manager_set (file_world ''x'' ''1.0'' 1) (cache_manager_init [])
             ''k'' ''v'' (Some [''/a'']))
          ''k'' (Some [''/a''])) = None \<and>
   misses (snd (cache_manager_get (file_world ''y'' ''2.0'' 2)
          (cache_manager_set (file_world ''x'' ''1.0'' 1) (cache_manager_init [])
             ''k'' ''v'' (Some [''/a'']))
          ''k'' (Some [''/a'']))) = 1 \<and>
   hits (snd (cache_manager_get (file_world ''y'' ''2.0'' 2)
          (cache_manager_set (file_world ''x'' ''1.0'' 1) (cache_manager_init [])
             ''k'' ''v'' (Some [''/a'']))
          ''k'' (Some [''/a'']))) = 0"
proof -
  have changed: "\<exists>p\<in>set [''/a'']. get_file_hash (file_world ''y'' ''2.0'' 2) p
                     \<noteq> get_file_hash (file_world ''x'' ''1.0'' 1) p"
    by (simp add: file_world_hash md5_x md5_y)
  have no_collision:
    "\<not> md5_collision (join ''|'' (key_parts (file_world ''y'' ''2.0'' 2) ''k'' (Some [''/a''])))
                      (join ''|'' (key_parts (file_world ''x'' ''1.0'' 1) ''k'' (Some [''/a''])))"
    by (simp add: md5_collision_def key_parts_def file_world_hash md5_x md5_y md5_key_x md5_key_y)
  have fresh: "map_of (cache_dir (cache_manager_init []))
                 (get_cache_path (build_cache_key (file_world ''y'' ''2.0'' 2) ''k'' (Some [''/a'']))) = None"
    by (simp add: cache_manager_init_def)
  show ?thesis
    using changed_dependency_misses [OF changed no_collision fresh, of "''v''"]
    by (simp add: cache_manager_init_def)
qed

text \<open>
  The claim as stated fails when the content returns to an earlier state: a value stored
  while \<^verbatim>\<open>/a\<close> held \<^verbatim>\<open>y\<close>, another stored after it changed to \<^verbatim>\<open>x\<close>, and a lookup after
  it changed back to \<^verbatim>\<open>y\<close>. The hash differs from the one at the second store, and yet
  the lookup returns the first value.
\<close>

theorem reverted_content_hits:
  "get_file_hash (file_world ''y'' ''3.0'' 3) ''/a''
     \<noteq> get_file_hash (file_world ''x'' ''2.0'' 2) ''/a'' \<and>
   fst (cache_manager_get (file_world ''y'' ''3.0'' 3)
          (cache_manager_set (file_world ''x'' ''2.0'' 2)
             (cache_manager_set (file_world ''y'' ''1.0'' 1) (cache_manager_init [])
                ''k'' ''old'' (Some [''/a'']))
             ''k'' ''new'' (Some [''/a'']))
          ''k'' (Some [''/a''])) = Some ''old''"
  by (simp add: run_defs key_x key_y file_world_hash md5_x md5_y)

subsection \<open>The order of the dependency list\<close>




subsection \<open>Explicit invalidation\<close>

lemma invalidate_file_twice:
  "fst (invalidate_file w (snd (invalidate_file w c p)) p) = 0"
proof (cases "file_hashes c p")
  case None
  then show ?thesis by (simp add: invalidate_file_def)
next
  case (Some old_hash)
  let ?test = "\<lambda>e. is_cache_file (fst e) \<and> contains (take 8 (md5_hexdigest p)) (fst e)"
  show ?thesis
  proof (cases "old_hash \<noteq> [] \<and> old_hash \<noteq> get_file_hash w p")
    case False
    with Some show ?thesis by (auto simp: invalidate_file_def)
  next
    case True
    obtain ok n d' where u: "unlink_matching ?test (cache_dir c) = (ok, n, d')"
      by (cases "unlink_matching ?test (cache_dir c)") auto
    show ?thesis
    proof (cases ok)
      case True
      with Some \<open>old_hash \<noteq> [] \<and> old_hash \<noteq> get_file_hash w p\<close> u show ?thesis
        by (simp add: invalidate_file_def)
    next
      case False
      have "\<not> fst (unlink_matching ?test (snd (snd (unlink_matching ?test (cache_dir c)))))"
        by (rule unlink_matching_again) (simp add: u False)
      then have again: "\<not> fst (unlink_matching ?test d')" by (simp add: u)
      obtain ok2 n2 d2 where u2: "unlink_matching ?test d' = (ok2, n2, d2)"
        by (cases "unlink_matching ?test d'") auto
      from again u2 have "\<not> ok2" by simp
      with Some \<open>old_hash \<noteq> [] \<and> old_hash \<noteq> get_file_hash w p\<close> u u2 False show ?thesis
        by (simp add: invalidate_file_def)
    qed
  qed
qed

text \<open>
  C6 on the code. A value is stored with \<^verbatim>\<open>/a\<close> as its dependency while \<^verbatim>\<open>/a\<close> holds
  \<^verbatim>\<open>x\<close>: the hash of \<^verbatim>\<open>/a\<close> is recorded and the entry is in the cache directory. After
  the content changed to \<^verbatim>\<open>y\<close>, \<^verbatim>\<open>invalidate_file\<close> looks for the first eight digits of
  the digest of the path in the entries' names, which are digests of key strings: it
  returns 0 and the directory still holds the entry. Called again in an unchanged
  environment it returns 0, in every state.
\<close>

theorem invalidate_file_leaves_dependent_entry:
  "file_hashes (cache_manager_set (file_world ''x'' ''1.0'' 1) (cache_manager_init [])
                  ''k'' ''v'' (Some [''/a''])) ''/a''
     = Some ''9dd4e461268c8034f5c8564e155c67a6'' \<and>
   cache_dir (cache_manager_set (file_world ''x'' ''1.0'' 1) (cache_manager_init [])
                ''k'' ''v'' (Some [''/a'']))
     = [(''9bed0881290dc3e3730787a61373dff3.cache'',
         \<lparr>blob = Some ''v'', st_atime = 1, st_size = 16, deletable = True\<rparr>)] \<and>
   get_file_hash (file_world ''y'' ''2.0'' 2) ''/a'' = ''415290769594460e2e485922904f345d'' \<and>
   fst (invalidate_file (file_world ''y'' ''2.0'' 2)
          (cache_manager_set (file_world ''x'' ''1.0'' 1) (cache_manager_init [])
             ''k'' ''v'' (Some [''/a''])) ''/a'') = 0 \<and>
   cache_dir (snd (invalidate_file (file_world ''y'' ''2.0'' 2)
          (cache_manager_set (file_world ''x'' ''1.0'' 1) (cache_manager_init [])
             ''k'' ''v'' (Some [''/a''])) ''/a''))
     = [(''9bed0881290dc3e3730787a61373dff3.cache'',
         \<lparr>blob = Some ''v'', st_atime = 1, st_size = 16, deletable = True\<rparr>)] \<and>
   fst (invalidate_file w (snd (invalidate_file w c p)) p) = 0"
proof -
  have stored_state:
    "cache_manager_set (file_world ''x'' ''1.0'' 1) (cache_manager_init []) ''k'' ''v'' (Some [''/a''])
       = \<lparr>cache_dir = [(''9bed0881290dc3e3730787a61373dff3.cache'',
                          \<lparr>blob = Some ''v'', st_atime = 1, st_size = 16, deletable = True\<rparr>)],
          max_size_mb = 100, hits = 0, misses = 0, invalidations = 0,
          file_hashes = [''/a'' \<mapsto> ''9dd4e461268c8034f5c8564e155c67a6'']\<rparr>"
    by (simp add: run_defs key_x file_world_hash md5_x)
  have first_call:
    "invalidate_file (file_world ''y'' ''2.0'' 2)
       \<lparr>cache_dir = [(''9bed0881290dc3e3730787a61373dff3.cache'',
                          \<lparr>blob = Some ''v'', st_atime = 1, st_size = 16, deletable = True\<rparr>)],
          max_size_mb = 100, hits = 0, misses = 0, invalidations = 0,
          file_hashes = [''/a'' \<mapsto> ''9dd4e461268c8034f5c8564e155c67a6'']\<rparr> ''/a''
       = (0, \<lparr>cache_dir = [(''9bed0881290dc3e3730787a61373dff3.cache'',
                          \<lparr>blob = Some ''v'', st_atime = 1, st_size = 16, deletable = True\<rparr>)],
          max_size_mb = 100, hits = 0, misses = 0, invalidations = 0,
          file_hashes = [''/a'' \<mapsto> ''415290769594460e2e485922904f345d'']\<rparr>)"
    by (simp add: invalidate_file_def Let_def is_cache_file_def file_world_hash md5_y md5_path_a)
  have current: "get_file_hash (file_world ''y'' ''2.0'' 2) ''/a'' = ''415290769594460e2e485922904f345d''"
    by (simp add: file_world_hash md5_y)
  show ?thesis
    unfolding stored_state first_call
    using current invalidate_file_twice [of w c p] by simp
qed

section \<open>Properties of the tool contract and the registry\<close>

subsection \<open>Contexts\<close>

text \<open>
  C10: \<open>can_execute\<close> answers for the empty-string context as it does for an omitted
  one, namely true, whatever the tool's declared context modes are; membership in the
  declared modes is only asked of a non-empty context.
\<close>

theorem can_execute_empty_context:
  "can_execute t (Some []) = can_execute t None \<and>
   can_execute t (Some []) \<and>
   (can_execute t (Some ctx) \<longleftrightarrow> ctx = [] \<or> ctx \<in> set (context_modes (metadata t)))"
  by (simp add: can_execute_def)

theorem can_execute_empty_context_witness:
  "[] \<notin> set (context_modes (metadata (fixed_tool ''t'' ''d'' [''general''] None None ''r''))) \<and>
   can_execute (fixed_tool ''t'' ''d'' [''general''] None None ''r'') (Some []) \<and>
   can_execute (fixed_tool ''t'' ''d'' [''general''] None None ''r'') None \<and>
   can_execute (fixed_tool ''t'' ''d'' [''general''] None None ''r'') (Some ''general'') \<and>
   \<not> can_execute (fixed_tool ''t'' ''d'' [''general''] None None ''r'') (Some ''debugging'')"
  using can_execute_empty_context [of "fixed_tool ''t'' ''d'' [''general''] None None ''r''" "''general''"]
    can_execute_empty_context [of "fixed_tool ''t'' ''d'' [''general''] None None ''r''" "''debugging''"]
  by (simp add: fixed_tool_def)

subsection \<open>Cache keys of tools\<close>





subsection \<open>Registration and lookup\<close>

lemma register_tool_instances: "instances (register_tool r c) = instances r"
  by (simp add: register_tool_def Let_def)

lemma register_tool_tools: "tools (register_tool r c) = (tools r)(name (metadata c) \<mapsto> c)"
  by (simp add: register_tool_def Let_def)

lemma get_tool_tools: "tools (snd (get_tool r nm)) = tools r"
  by (simp add: get_tool_def split: option.splits)

lemma get_tool_instances_dom:
  "dom (instances r) \<subseteq> dom (tools r) \<Longrightarrow> dom (instances (snd (get_tool r nm))) \<subseteq> dom (tools r)"
  by (auto simp: get_tool_def split: option.splits)

lemma reachable_instances_registered:
  "reachable r \<Longrightarrow> dom (instances r) \<subseteq> dom (tools r)"
proof (induction rule: reachable.induct)
  case reachable_init
  then show ?case by (simp add: registry_init_def)
next
  case (reachable_register r tool_class)
  then show ?case by (auto simp: register_tool_instances register_tool_tools)
next
  case (reachable_get r nm)
  then show ?case using get_tool_instances_dom [of r nm] by (simp add: get_tool_tools)
qed

lemma get_tool_unregistered:
  assumes "reachable r" and "tools r nm = None"
  shows "get_tool r nm = (None, r)"
proof -
  have "instances r nm = None"
    using reachable_instances_registered [OF assms(1)] assms(2) by (auto simp: dom_def)
  then show ?thesis using assms(2) by (simp add: get_tool_def)
qed




subsection \<open>Executing a tool\<close>

text \<open>
  C8: for a name that is not registered, in a registry built from the empty one by
  registrations and lookups, \<open>execute_tool\<close> fails with the \<^verbatim>\<open>ToolError\<close> whose message
  says the tool was not found, and the state is as before: the cache manager with its
  directory and counters, the registry, the environment and the call log.
\<close>

theorem execute_unregistered_not_found:
  assumes "reachable (registry s)" and "tools (registry s) nm = None"
  shows "execute_tool s nm context kwargs =
           (Inl (ToolError (''Tool '' @ quoted nm @ '' not found'') nm []), s)"
  using get_tool_unregistered [OF assms] by (simp add: execute_tool_def)

theorem execute_unregistered_not_found_witness:
  "execute_tool (system_with (fixed_tool ''t'' ''d'' [''general''] (Some ''k'') None ''r'')
                   [(''8ce4b16b22b58894aa86c421e8759df3.cache'', stored ''v'')]
                   (file_world ''x'' ''1.0'' 1))
      ''u'' None Map.empty
   = (Inl (ToolError (''Tool '' @ quoted ''u'' @ '' not found'') ''u'' []),
      system_with (fixed_tool ''t'' ''d'' [''general''] (Some ''k'') None ''r'')
                   [(''8ce4b16b22b58894aa86c421e8759df3.cache'', stored ''v'')]
                   (file_world ''x'' ''1.0'' 1)) \<and>
   error_str (ToolError (''Tool '' @ quoted ''u'' @ '' not found'') ''u'' [])
     = ''u: Tool '' @ [CHR 0x27] @ ''u'' @ [CHR 0x27] @  '' not found''"
proof -
  have r: "reachable (registry (system_with (fixed_tool ''t'' ''d'' [''general''] (Some ''k'') None ''r'')
                   [(''8ce4b16b22b58894aa86c421e8759df3.cache'', stored ''v'')]
                   (file_world ''x'' ''1.0'' 1)))"
    unfolding system_with_def by simp (rule reachable_register, rule reachable_init)
  have t: "tools (registry (system_with (fixed_tool ''t'' ''d'' [''general''] (Some ''k'') None ''r'')
                   [(''8ce4b16b22b58894aa86c421e8759df3.cache'', stored ''v'')]
                   (file_world ''x'' ''1.0'' 1))) ''u'' = None"
    by (simp add: system_with_def register_tool_tools registry_init_def fixed_tool_def)
  show ?thesis
    using execute_unregistered_not_found [OF r t, of None Map.empty]
    by (simp add: quoted_def)
qed







end
